theory Spec2Isabelle
  imports Complex_Main "HOL-Library.Word"
begin

section \<open>Common conventions\<close>

text \<open>
  The C++ type \<open>doublereal\<close> (\<open>double\<close>) is modelled by \<^typ>\<open>real\<close>: arithmetic is
  exact, so statements about residuals are statements about the real-number values the
  code computes, without rounding. A \<open>vector_fp\<close> and a \<open>doublereal*\<close> buffer are
  \<^typ>\<open>real list\<close>; a C \<open>int\<close> member is an \<^typ>\<open>int\<close> (no arithmetic below can
  overflow it); \<open>size_t\<close> is a 64-bit word.

  A C++ exception is a value: \<open>CanteraError procedure message\<close> where the source
  gives the two strings, \<open>ConfigurationError\<close> for the configuration errors that only
  the specification describes. A read or write outside a vector or buffer, or through a
  null pointer, has no defined behaviour in C++; the model makes it the separate outcome
  \<open>OutOfRange\<close> instead of inventing a value. A quotient whose divisor is 0 is not a
  real number either (HOL's \<open>x / 0 = 0\<close> is no result of the program); it is the outcome
  \<open>DivisionByZero\<close>.
\<close>

datatype error = CanteraError string string | ConfigurationError | OutOfRange | DivisionByZero

definition at_index :: "'a list \<Rightarrow> nat \<Rightarrow> error + 'a" where
  "at_index v i = (if i < length v then Inr (v ! i) else Inl OutOfRange)"

section \<open>ReactorBase (include/cantera/zeroD/ReactorBase.h)\<close>

text \<open>
  The data members of \<open>ReactorBase\<close> that hold values. The pointers to collaborators
  (\<open>m_thermo\<close>, \<open>m_net\<close>) and the vectors of pointers (\<open>m_inlet\<close>, \<open>m_outlet\<close>,
  \<open>m_wall\<close>, \<open>m_surfaces\<close>) are only read by methods whose bodies are elsewhere.
\<close>

record ReactorBase =
  m_nsp :: "64 word"
  m_vol :: real
  m_enthalpy :: real
  m_intEnergy :: real
  m_pressure :: real
  m_state :: "real list"
  m_lr :: "int list"
  m_name :: string

text \<open>
  A reactor with the default member initialisers of the class (\<open>m_nsp = 0\<close>,
  \<open>m_vol = 1.0\<close>, the energies and the pressure \<open>0.0\<close>, the constructor's default name)
  and a given state vector.
\<close>

definition new_reactor :: "real list \<Rightarrow> ReactorBase" where
  "new_reactor st =
     \<lparr>m_nsp = 0, m_vol = 1, m_enthalpy = 0, m_intEnergy = 0, m_pressure = 0,
      m_state = st, m_lr = [], m_name = ''(none)''\<rparr>"

definition state_empty_msg :: string where
  "state_empty_msg = ''Reactor state empty and/or contents not defined.''"

text \<open>\<open>double density() const\<close>: throws on an empty state, else \<open>m_state[1]\<close>.\<close>

definition density :: "ReactorBase \<Rightarrow> error + real" where
  "density r =
     (if m_state r = [] then Inl (CanteraError ''ReactorBase::density'' state_empty_msg)
      else at_index (m_state r) 1)"

text \<open>\<open>double temperature() const\<close>: throws on an empty state, else \<open>m_state[0]\<close>.\<close>

definition temperature :: "ReactorBase \<Rightarrow> error + real" where
  "temperature r =
     (if m_state r = [] then Inl (CanteraError ''ReactorBase::temperature'' state_empty_msg)
      else at_index (m_state r) 0)"

text \<open>
  \<open>const double* massFractions() const\<close>: throws on an empty state, else the pointer
  \<open>m_state.data() + 2\<close>. The pointer is modelled by the elements it points at, the
  state from index 2 on; forming it needs at least two elements.
\<close>

definition massFractions :: "ReactorBase \<Rightarrow> error + real list" where
  "massFractions r =
     (if m_state r = [] then Inl (CanteraError ''ReactorBase::massFractions'' state_empty_msg)
      else if 2 \<le> length (m_state r) then Inr (drop 2 (m_state r))
      else Inl OutOfRange)"

text \<open>
  \<open>double massFraction(size_t k) const\<close>: throws on an empty state, else
  \<open>m_state[k+2]\<close>, the index computed in \<open>size_t\<close> (it wraps at \<open>2^64\<close>).
\<close>

definition massFraction :: "ReactorBase \<Rightarrow> 64 word \<Rightarrow> error + real" where
  "massFraction r k =
     (if m_state r = [] then Inl (CanteraError ''ReactorBase::massFraction'' state_empty_msg)
      else at_index (m_state r) (unat (k + 2)))"

section \<open>Boundary domains (Cantera/src/oneD/Inlet1D.h)\<close>

subsection \<open>Collaborators reached through pointers\<close>

text \<open>
  The boundary classes hold non-owning pointers to a flow domain, to thermodynamic phases
  and to a surface-kinetics manager. A pointer is an \<open>option\<close> (\<open>None\<close> is the null
  pointer) of the data the boundary reads through it: the gas phase's species names and
  molar masses, the surface phase's coverages, the kinetics manager's surface phase index
  and its phases.
\<close>

record ThermoPhase =
  speciesNames :: "string list"
  molecularWeights :: "real list"

record StFlow =
  phase :: ThermoPhase

record SurfPhase =
  coverages :: "real list"

definition nSpecies :: "SurfPhase \<Rightarrow> int" where
  "nSpecies sp = int (length (coverages sp))"

record InterfaceKinetics =
  surfacePhaseIndex :: int
  thermo :: "int \<Rightarrow> SurfPhase"

subsection \<open>class Bdry1D\<close>

record Bdry1D =
  m_flow_left :: "StFlow option"
  m_flow_right :: "StFlow option"
  m_ilr :: int
  m_left_nv :: int
  m_right_nv :: int
  m_left_loc :: int
  m_right_loc :: int
  m_left_points :: int
  m_nv :: int
  m_left_nsp :: int
  m_right_nsp :: int
  m_sp_left :: int
  m_sp_right :: int
  m_start_left :: int
  m_start_right :: int
  m_phase_left :: "ThermoPhase option"
  m_phase_right :: "ThermoPhase option"
  m_temp :: real
  m_mdot :: real

text \<open>
  A method of a class is a function of the object that returns the object after the
  call; a method that can throw returns the outcome (\<open>Inl\<close> the exception) together
  with the object as the throw leaves it. The methods of \<open>Bdry1D\<close> work on every
  extension of the record, as inherited methods do on a derived class.
\<close>

definition Bdry1D_setTemperature :: "real \<Rightarrow> 'a Bdry1D_scheme \<Rightarrow> 'a Bdry1D_scheme" where
  "Bdry1D_setTemperature t d = d\<lparr>m_temp := t\<rparr>"

definition Bdry1D_temperature :: "'a Bdry1D_scheme \<Rightarrow> real" where
  "Bdry1D_temperature d = m_temp d"

definition Bdry1D_setMdot :: "real \<Rightarrow> 'a Bdry1D_scheme \<Rightarrow> 'a Bdry1D_scheme" where
  "Bdry1D_setMdot mdot d = d\<lparr>m_mdot := mdot\<rparr>"

definition Bdry1D_mdot :: "'a Bdry1D_scheme \<Rightarrow> real" where
  "Bdry1D_mdot d = m_mdot d"

text \<open>\<open>void err(string method)\<close>: always throws.\<close>

definition Bdry1D_err :: "string \<Rightarrow> error" where
  "Bdry1D_err method =
     CanteraError (''Bdry1D::'' @ method) (''attempt to call base class method '' @ method)"

definition Bdry1D_setMoleFractions_string ::
  "string \<Rightarrow> 'a Bdry1D_scheme \<Rightarrow> (error + unit) \<times> 'a Bdry1D_scheme" where
  "Bdry1D_setMoleFractions_string xin d = (Inl (Bdry1D_err ''setMoleFractions''), d)"

definition Bdry1D_setMoleFractions_array ::
  "real list \<Rightarrow> 'a Bdry1D_scheme \<Rightarrow> (error + unit) \<times> 'a Bdry1D_scheme" where
  "Bdry1D_setMoleFractions_array xin d = (Inl (Bdry1D_err ''setMoleFractions''), d)"

text \<open>\<open>massFraction(int k) {err("massFraction"); return 0.0;}\<close>: the return is never reached.\<close>

definition Bdry1D_massFraction ::
  "int \<Rightarrow> 'a Bdry1D_scheme \<Rightarrow> (error + real) \<times> 'a Bdry1D_scheme" where
  "Bdry1D_massFraction k d = (Inl (Bdry1D_err ''massFraction''), d)"

text \<open>\<open>Bdry1D::_getInitialSoln\<close> only writes a log line.\<close>

definition Bdry1D__getInitialSoln :: "'a Bdry1D_scheme \<Rightarrow> real list \<Rightarrow> error + real list" where
  "Bdry1D__getInitialSoln d x = Inr x"

subsection \<open>class Inlet1D\<close>

text \<open>\<open>Inlet1D\<close> declares a second \<open>m_ilr\<close>, which hides the one of \<open>Bdry1D\<close>.\<close>

record Inlet1D = Bdry1D +
  m_ilr :: int
  m_V0 :: real
  m_nsp :: int
  m_yin :: "real list"
  m_xstr :: string
  m_flow :: "StFlow option"

text \<open>
  \<open>setSpreadRate\<close> also calls \<open>needJacUpdate()\<close>, which flags the enclosing container
  and touches no member of the inlet.
\<close>

definition Inlet1D_setSpreadRate :: "real \<Rightarrow> Inlet1D \<Rightarrow> Inlet1D" where
  "Inlet1D_setSpreadRate V0 d = d\<lparr>m_V0 := V0\<rparr>"

definition Inlet1D_spreadRate :: "Inlet1D \<Rightarrow> real" where
  "Inlet1D_spreadRate d = m_V0 d"

text \<open>\<open>_getInitialSoln\<close>: \<open>x[0] = m_mdot; x[1] = m_temp;\<close>\<close>

definition Inlet1D__getInitialSoln :: "Inlet1D \<Rightarrow> real list \<Rightarrow> error + real list" where
  "Inlet1D__getInitialSoln d x =
     (if length x < 2 then Inl OutOfRange else Inr (x[0 := m_mdot d, 1 := m_temp d]))"

text \<open>\<open>virtual void _finalize(const doublereal* x) {}\<close>\<close>

definition Inlet1D__finalize :: "Inlet1D \<Rightarrow> real list \<Rightarrow> error + Inlet1D" where
  "Inlet1D__finalize d x = Inr d"

text \<open>\<open>massFraction(int k) {return m_yin[k];}\<close>\<close>

definition Inlet1D_massFraction :: "int \<Rightarrow> Inlet1D \<Rightarrow> (error + real) \<times> Inlet1D" where
  "Inlet1D_massFraction k d =
     ((if k < 0 then Inl OutOfRange else at_index (m_yin d) (nat k)), d)"

subsection \<open>classes Symm1D, Outlet1D, Surf1D\<close>

text \<open>
  These three add no data member to \<open>Bdry1D\<close> and override neither
  \<open>setMoleFractions\<close> nor \<open>massFraction\<close>. Each writes \<open>x[0] = m_temp\<close> as its initial
  solution, and its \<open>_finalize\<close> has an empty body (the assignment \<open>m_temp = x[0]\<close> is
  commented out).
\<close>

definition Symm1D__getInitialSoln :: "Bdry1D \<Rightarrow> real list \<Rightarrow> error + real list" where
  "Symm1D__getInitialSoln d x =
     (if length x < 1 then Inl OutOfRange else Inr (x[0 := m_temp d]))"

definition Symm1D__finalize :: "Bdry1D \<Rightarrow> real list \<Rightarrow> error + Bdry1D" where
  "Symm1D__finalize d x = Inr d"

definition Outlet1D__getInitialSoln :: "Bdry1D \<Rightarrow> real list \<Rightarrow> error + real list" where
  "Outlet1D__getInitialSoln d x =
     (if length x < 1 then Inl OutOfRange else Inr (x[0 := m_temp d]))"

definition Outlet1D__finalize :: "Bdry1D \<Rightarrow> real list \<Rightarrow> error + Bdry1D" where
  "Outlet1D__finalize d x = Inr d"

definition Surf1D__getInitialSoln :: "Bdry1D \<Rightarrow> real list \<Rightarrow> error + real list" where
  "Surf1D__getInitialSoln d x =
     (if length x < 1 then Inl OutOfRange else Inr (x[0 := m_temp d]))"

definition Surf1D__finalize :: "Bdry1D \<Rightarrow> real list \<Rightarrow> error + Bdry1D" where
  "Surf1D__finalize d x = Inr d"

subsection \<open>class OutletRes1D\<close>

record OutletRes1D = Bdry1D +
  m_nsp :: int
  m_yres :: "real list"
  m_xstr :: string
  m_flow :: "StFlow option"

definition OutletRes1D__getInitialSoln :: "OutletRes1D \<Rightarrow> real list \<Rightarrow> error + real list" where
  "OutletRes1D__getInitialSoln d x =
     (if length x < 1 then Inl OutOfRange else Inr (x[0 := m_temp d]))"

definition OutletRes1D__finalize :: "OutletRes1D \<Rightarrow> real list \<Rightarrow> error + OutletRes1D" where
  "OutletRes1D__finalize d x = Inr d"

definition OutletRes1D_massFraction ::
  "int \<Rightarrow> OutletRes1D \<Rightarrow> (error + real) \<times> OutletRes1D" where
  "OutletRes1D_massFraction k d =
     ((if k < 0 then Inl OutOfRange else at_index (m_yres d) (nat k)), d)"

subsection \<open>class ReactingSurf1D\<close>

record ReactingSurf1D = Bdry1D +
  m_kin :: "InterfaceKinetics option"
  m_sphase :: "SurfPhase option"
  m_surfindex :: int
  m_nsp :: int
  m_enabled :: bool
  m_work :: "real list"
  m_fixed_cov :: "real list"
  dum :: int

text \<open>
  \<open>setKineticsMgr(InterfaceKinetics* kin)\<close>; the argument is the object \<open>kin\<close> points
  at (the method dereferences it at once).
\<close>

definition ReactingSurf1D_setKineticsMgr ::
  "InterfaceKinetics \<Rightarrow> ReactingSurf1D \<Rightarrow> ReactingSurf1D" where
  "ReactingSurf1D_setKineticsMgr kin d =
     (let d1 = d\<lparr>m_kin := Some kin\<rparr>;
          d2 = d1\<lparr>m_surfindex := surfacePhaseIndex kin\<rparr>;
          d3 = d2\<lparr>m_sphase := Some (thermo kin (m_surfindex d2))\<rparr>;
          d4 = d3\<lparr>ReactingSurf1D.m_nsp := nSpecies (the (m_sphase d3))\<rparr>
      in d4\<lparr>m_enabled := True\<rparr>)"

definition ReactingSurf1D_enableCoverageEquations ::
  "bool \<Rightarrow> ReactingSurf1D \<Rightarrow> ReactingSurf1D" where
  "ReactingSurf1D_enableCoverageEquations docov d = d\<lparr>m_enabled := docov\<rparr>"

text \<open>
  \<open>_getInitialSoln\<close>: \<open>x[0] = m_temp; m_sphase->getCoverages(x+1);\<close> The surface phase
  writes one coverage per species behind \<open>x[0]\<close>.
\<close>

definition ReactingSurf1D__getInitialSoln ::
  "ReactingSurf1D \<Rightarrow> real list \<Rightarrow> error + real list" where
  "ReactingSurf1D__getInitialSoln d x =
     (case m_sphase d of
        None \<Rightarrow> Inl OutOfRange
      | Some sp \<Rightarrow>
          if length x < 1 + length (coverages sp) then Inl OutOfRange
          else Inr (m_temp d # coverages sp @ drop (1 + length (coverages sp)) x))"

text \<open>
  \<open>_finalize\<close>: \<open>copy(x+1, x+1+m_nsp, m_fixed_cov.begin());\<close> The first \<open>m_nsp\<close>
  entries of \<open>m_fixed_cov\<close> are overwritten by \<open>x[1], ..., x[m_nsp]\<close>; the copy needs
  that many elements on both sides and a range that is not reversed.
\<close>

definition ReactingSurf1D__finalize ::
  "ReactingSurf1D \<Rightarrow> real list \<Rightarrow> error + ReactingSurf1D" where
  "ReactingSurf1D__finalize d x =
     (let n = nat (ReactingSurf1D.m_nsp d) in
      if ReactingSurf1D.m_nsp d < 0 \<or> length x < 1 + n \<or> length (m_fixed_cov d) < n
      then Inl OutOfRange
      else Inr (d\<lparr>m_fixed_cov := take n (drop 1 x) @ drop n (m_fixed_cov d)\<rparr>))"

subsection \<open>Virtual dispatch\<close>

text \<open>
  An object of the boundary family is one of the six concrete classes. A virtual call
  runs the method of the object's class, or the inherited \<open>Bdry1D\<close> method where the
  class does not override it.
\<close>

datatype bdry =
    Inlet Inlet1D
  | Symm Bdry1D
  | Outlet Bdry1D
  | OutletRes OutletRes1D
  | Surf Bdry1D
  | ReactingSurf ReactingSurf1D

fun virtual__finalize :: "bdry \<Rightarrow> real list \<Rightarrow> error + bdry" where
  "virtual__finalize (Inlet d) x = map_sum id Inlet (Inlet1D__finalize d x)"
| "virtual__finalize (Symm d) x = map_sum id Symm (Symm1D__finalize d x)"
| "virtual__finalize (Outlet d) x = map_sum id Outlet (Outlet1D__finalize d x)"
| "virtual__finalize (OutletRes d) x = map_sum id OutletRes (OutletRes1D__finalize d x)"
| "virtual__finalize (Surf d) x = map_sum id Surf (Surf1D__finalize d x)"
| "virtual__finalize (ReactingSurf d) x = map_sum id ReactingSurf (ReactingSurf1D__finalize d x)"

fun virtual__getInitialSoln :: "bdry \<Rightarrow> real list \<Rightarrow> error + real list" where
  "virtual__getInitialSoln (Inlet d) x = Inlet1D__getInitialSoln d x"
| "virtual__getInitialSoln (Symm d) x = Symm1D__getInitialSoln d x"
| "virtual__getInitialSoln (Outlet d) x = Outlet1D__getInitialSoln d x"
| "virtual__getInitialSoln (OutletRes d) x = OutletRes1D__getInitialSoln d x"
| "virtual__getInitialSoln (Surf d) x = Surf1D__getInitialSoln d x"
| "virtual__getInitialSoln (ReactingSurf d) x = ReactingSurf1D__getInitialSoln d x"

fun setTemperature :: "real \<Rightarrow> bdry \<Rightarrow> bdry" where
  "setTemperature t (Inlet d) = Inlet (Bdry1D_setTemperature t d)"
| "setTemperature t (Symm d) = Symm (Bdry1D_setTemperature t d)"
| "setTemperature t (Outlet d) = Outlet (Bdry1D_setTemperature t d)"
| "setTemperature t (OutletRes d) = OutletRes (Bdry1D_setTemperature t d)"
| "setTemperature t (Surf d) = Surf (Bdry1D_setTemperature t d)"
| "setTemperature t (ReactingSurf d) = ReactingSurf (Bdry1D_setTemperature t d)"

fun setMdot :: "real \<Rightarrow> bdry \<Rightarrow> bdry" where
  "setMdot m (Inlet d) = Inlet (Bdry1D_setMdot m d)"
| "setMdot m (Symm d) = Symm (Bdry1D_setMdot m d)"
| "setMdot m (Outlet d) = Outlet (Bdry1D_setMdot m d)"
| "setMdot m (OutletRes d) = OutletRes (Bdry1D_setMdot m d)"
| "setMdot m (Surf d) = Surf (Bdry1D_setMdot m d)"
| "setMdot m (ReactingSurf d) = ReactingSurf (Bdry1D_setMdot m d)"

section \<open>Method bodies that the header only declares\<close>

subsection \<open>Composition setters of the inlet and of the outlet with reservoir\<close>

text \<open>
  Modelled from the spec: the check on the fractions of a composition. Sections 4.2 and 7
  of the specification make a composition whose fractions are all zero or negative, or
  sum to zero, a configuration error.
\<close>

definition rejected_fractions :: "real list \<Rightarrow> bool" where
  "rejected_fractions X = (list_all (\<lambda>x. x \<le> 0) X \<or> sum_list X = 0)"

text \<open>
  Modelled from the spec: the conversion of mole ratios to mass fractions using molar
  masses (section 8), which the thermodynamics collaborator performs. Species \<open>k\<close> gets
  the mass fraction \<open>X\<^sub>k M\<^sub>k / \<Sum>\<^sub>j X\<^sub>j M\<^sub>j\<close> with the molar masses \<open>M\<close>. The phase must
  have a molar mass for every ratio, and the divisor must not be 0.
\<close>

definition resolve_mass_fractions :: "ThermoPhase \<Rightarrow> real list \<Rightarrow> error + real list" where
  "resolve_mass_fractions ph X =
     (if rejected_fractions X then Inl ConfigurationError
      else if length (molecularWeights ph) < length X then Inl OutOfRange
      else if sum_list (map2 (*) X (molecularWeights ph)) = 0 then Inl DivisionByZero
      else Inr (map (\<lambda>(x, m). x * m / sum_list (map2 (*) X (molecularWeights ph)))
                  (zip X (molecularWeights ph))))"

text \<open>
  Modelled from the spec: the mole ratios a parsed composition (name/value pairs) gives
  to the species of a phase, in the order of the phase. A name that is not a species of
  the phase is a configuration error (section 4.2); a species that is not named gets 0.
  The specification does not say what a composition that names a species twice means;
  the lookup takes the first pair, and the theorems below are about compositions that
  name no species twice.
\<close>

definition ratio_of :: "(string \<times> real) list \<Rightarrow> string \<Rightarrow> real" where
  "ratio_of pairs nm = (case map_of pairs nm of None \<Rightarrow> 0 | Some v \<Rightarrow> v)"

definition mole_ratios :: "ThermoPhase \<Rightarrow> (string \<times> real) list \<Rightarrow> error + real list" where
  "mole_ratios ph pairs =
     (if list_all (\<lambda>nm. nm \<in> set (speciesNames ph)) (map fst pairs)
      then Inr (map (ratio_of pairs) (speciesNames ph))
      else Inl ConfigurationError)"

text \<open>
  Modelled from the spec: the body of the array overload
  \<open>Inlet1D::setMoleFractions(doublereal* xin)\<close>, which the header declares and does not
  define. Section 8 of the specification describes the array as mass fractions that are
  read back unchanged: the array holds one mass fraction per species and is stored as it
  is given, unless its fractions are rejected (sections 4.2 and 7). The species count is
  read through the reference to the attached flow (section 3); an inlet without attached
  flow has a null reference.
\<close>

definition Inlet1D_setMoleFractions_array ::
  "real list \<Rightarrow> Inlet1D \<Rightarrow> (error + unit) \<times> Inlet1D" where
  "Inlet1D_setMoleFractions_array xin d =
     (case Inlet1D.m_flow d of
        None \<Rightarrow> (Inl OutOfRange, d)
      | Some fl \<Rightarrow>
          let n = length (speciesNames (phase fl)) in
          if length xin < n then (Inl OutOfRange, d)
          else if rejected_fractions (take n xin) then (Inl ConfigurationError, d)
          else (Inr (), d\<lparr>m_yin := take n xin\<rparr>))"

text \<open>
  Modelled from the spec: setting the composition of an inlet from a parsed composition
  string, that is from its name/value pairs (section 6). The mole ratios of the pairs
  are resolved to mass fractions with the molar masses of the attached flow's phase, and
  the resolved array is stored (sections 3 and 8).
\<close>

definition Inlet1D_setMoleFractions_parsed ::
  "(string \<times> real) list \<Rightarrow> Inlet1D \<Rightarrow> (error + unit) \<times> Inlet1D" where
  "Inlet1D_setMoleFractions_parsed pairs d =
     (case Inlet1D.m_flow d of
        None \<Rightarrow> (Inl OutOfRange, d)
      | Some fl \<Rightarrow>
          (case mole_ratios (phase fl) pairs of
             Inl e \<Rightarrow> (Inl e, d)
           | Inr X \<Rightarrow>
               (case resolve_mass_fractions (phase fl) X of
                  Inl e \<Rightarrow> (Inl e, d)
                | Inr y \<Rightarrow> (Inr (), d\<lparr>m_yin := y\<rparr>))))"

text \<open>
  Modelled from the spec: the body of \<open>Inlet1D::setMoleFractions(string xin)\<close>, which
  the header declares and does not define: the composition is set from the parse of the
  string. The parser of composition strings is a collaborator outside the headers and
  is the first argument.
\<close>

definition Inlet1D_setMoleFractions_string ::
  "(string \<Rightarrow> (string \<times> real) list) \<Rightarrow> string \<Rightarrow> Inlet1D \<Rightarrow> (error + unit) \<times> Inlet1D" where
  "Inlet1D_setMoleFractions_string parseCompString xin d =
     Inlet1D_setMoleFractions_parsed (parseCompString xin) d"

text \<open>
  Modelled from the spec: the bodies of the two \<open>OutletRes1D::setMoleFractions\<close>
  overloads, which the header declares and does not define. The reservoir composition
  is a stored resolved mass-fraction array like the inlet's (sections 3 and 4.5).
\<close>

definition OutletRes1D_setMoleFractions_array ::
  "real list \<Rightarrow> OutletRes1D \<Rightarrow> (error + unit) \<times> OutletRes1D" where
  "OutletRes1D_setMoleFractions_array xin d =
     (case OutletRes1D.m_flow d of
        None \<Rightarrow> (Inl OutOfRange, d)
      | Some fl \<Rightarrow>
          let n = length (speciesNames (phase fl)) in
          if length xin < n then (Inl OutOfRange, d)
          else if rejected_fractions (take n xin) then (Inl ConfigurationError, d)
          else (Inr (), d\<lparr>m_yres := take n xin\<rparr>))"

definition OutletRes1D_setMoleFractions_parsed ::
  "(string \<times> real) list \<Rightarrow> OutletRes1D \<Rightarrow> (error + unit) \<times> OutletRes1D" where
  "OutletRes1D_setMoleFractions_parsed pairs d =
     (case OutletRes1D.m_flow d of
        None \<Rightarrow> (Inl OutOfRange, d)
      | Some fl \<Rightarrow>
          (case mole_ratios (phase fl) pairs of
             Inl e \<Rightarrow> (Inl e, d)
           | Inr X \<Rightarrow>
               (case resolve_mass_fractions (phase fl) X of
                  Inl e \<Rightarrow> (Inl e, d)
                | Inr y \<Rightarrow> (Inr (), d\<lparr>m_yres := y\<rparr>))))"

definition OutletRes1D_setMoleFractions_string ::
  "(string \<Rightarrow> (string \<times> real) list) \<Rightarrow> string \<Rightarrow> OutletRes1D
     \<Rightarrow> (error + unit) \<times> OutletRes1D" where
  "OutletRes1D_setMoleFractions_string parseCompString xin d =
     OutletRes1D_setMoleFractions_parsed (parseCompString xin) d"

subsection \<open>Virtual dispatch of the composition methods\<close>

text \<open>
  \<open>Inlet1D\<close> and \<open>OutletRes1D\<close> override \<open>setMoleFractions\<close> and \<open>massFraction\<close>;
  \<open>Symm1D\<close>, \<open>Outlet1D\<close>, \<open>Surf1D\<close> and \<open>ReactingSurf1D\<close> inherit those of
  \<open>Bdry1D\<close>.
\<close>

fun carries_composition :: "bdry \<Rightarrow> bool" where
  "carries_composition (Inlet d) = True"
| "carries_composition (OutletRes d) = True"
| "carries_composition _ = False"

fun setMoleFractions_string ::
  "(string \<Rightarrow> (string \<times> real) list) \<Rightarrow> string \<Rightarrow> bdry \<Rightarrow> (error + unit) \<times> bdry" where
  "setMoleFractions_string p xin (Inlet d) =
     map_prod id Inlet (Inlet1D_setMoleFractions_string p xin d)"
| "setMoleFractions_string p xin (Symm d) =
     map_prod id Symm (Bdry1D_setMoleFractions_string xin d)"
| "setMoleFractions_string p xin (Outlet d) =
     map_prod id Outlet (Bdry1D_setMoleFractions_string xin d)"
| "setMoleFractions_string p xin (OutletRes d) =
     map_prod id OutletRes (OutletRes1D_setMoleFractions_string p xin d)"
| "setMoleFractions_string p xin (Surf d) =
     map_prod id Surf (Bdry1D_setMoleFractions_string xin d)"
| "setMoleFractions_string p xin (ReactingSurf d) =
     map_prod id ReactingSurf (Bdry1D_setMoleFractions_string xin d)"

fun setMoleFractions_array :: "real list \<Rightarrow> bdry \<Rightarrow> (error + unit) \<times> bdry" where
  "setMoleFractions_array xin (Inlet d) =
     map_prod id Inlet (Inlet1D_setMoleFractions_array xin d)"
| "setMoleFractions_array xin (Symm d) =
     map_prod id Symm (Bdry1D_setMoleFractions_array xin d)"
| "setMoleFractions_array xin (Outlet d) =
     map_prod id Outlet (Bdry1D_setMoleFractions_array xin d)"
| "setMoleFractions_array xin (OutletRes d) =
     map_prod id OutletRes (OutletRes1D_setMoleFractions_array xin d)"
| "setMoleFractions_array xin (Surf d) =
     map_prod id Surf (Bdry1D_setMoleFractions_array xin d)"
| "setMoleFractions_array xin (ReactingSurf d) =
     map_prod id ReactingSurf (Bdry1D_setMoleFractions_array xin d)"

fun massFraction_of :: "int \<Rightarrow> bdry \<Rightarrow> (error + real) \<times> bdry" where
  "massFraction_of k (Inlet d) = map_prod id Inlet (Inlet1D_massFraction k d)"
| "massFraction_of k (Symm d) = map_prod id Symm (Bdry1D_massFraction k d)"
| "massFraction_of k (Outlet d) = map_prod id Outlet (Bdry1D_massFraction k d)"
| "massFraction_of k (OutletRes d) = map_prod id OutletRes (OutletRes1D_massFraction k d)"
| "massFraction_of k (Surf d) = map_prod id Surf (Bdry1D_massFraction k d)"
| "massFraction_of k (ReactingSurf d) = map_prod id ReactingSurf (Bdry1D_massFraction k d)"

subsection \<open>Residual evaluation\<close>

text \<open>
  The header declares \<open>eval(int jg, doublereal* xg, doublereal* rg, integer* diagg,
  doublereal rdt)\<close> for every boundary class and defines none of them; the definitions of
  this subsection follow sections 4.1 to 4.8 of the specification. A domain sees its own
  slice \<open>x\<close> of the trial vector and its own slice \<open>r\<close> of the residual buffer
  (section 4.1). What a boundary reads from elsewhere is gathered in a record: the
  temperature of the attached flow at its nearest interior point (read from the trial
  vector through the neighbour's offset), whether the attached flow uses the free
  mass-flux formulation, the surface-kinetics evaluator, and the previously accepted
  solution slice. The specification gives the two inlet rows only for an attached flow
  with the free mass-flux formulation; the rows of the other formulation are a parameter.
\<close>

record eval_env =
  T_flow :: real
  free_mass_flux :: bool
  other_inlet_rows :: "real list \<Rightarrow> real \<times> real"
  net_production_rates :: "real list \<Rightarrow> real \<Rightarrow> real list"
  prevSoln :: "real list"

text \<open>
  Modelled from the spec: the steady rows of \<open>Inlet1D::eval\<close> (section 4.2). With a free
  mass-flux flow, row 0 is trial mdot minus specified mdot; row 1 is trial \<open>T\<close> minus
  specified \<open>T\<close>, unless the spreading rate is not zero, when it is the difference to the
  flow's first interior temperature.
\<close>

definition Inlet1D_steady :: "eval_env \<Rightarrow> Inlet1D \<Rightarrow> real list \<Rightarrow> error + real list" where
  "Inlet1D_steady env d x =
     (if length x < 2 then Inl OutOfRange
      else if free_mass_flux env
      then Inr [x ! 0 - m_mdot d,
                if m_V0 d = 0 then x ! 1 - m_temp d else x ! 1 - T_flow env]
      else Inr [fst (other_inlet_rows env x), snd (other_inlet_rows env x)])"

text \<open>
  Modelled from the spec: the steady row of \<open>Symm1D::eval\<close>, \<open>Outlet1D::eval\<close> and
  \<open>OutletRes1D::eval\<close> (sections 4.3 to 4.5): zero temperature gradient against the
  attached flow's nearest interior point.
\<close>

definition zero_gradient_steady :: "eval_env \<Rightarrow> real list \<Rightarrow> error + real list" where
  "zero_gradient_steady env x =
     (if length x < 1 then Inl OutOfRange else Inr [x ! 0 - T_flow env])"

text \<open>
  Modelled from the spec: the steady row of \<open>Surf1D::eval\<close> (section 4.6): trial \<open>T\<close>
  minus the specified wall temperature.
\<close>

definition Surf1D_steady :: "Bdry1D \<Rightarrow> real list \<Rightarrow> error + real list" where
  "Surf1D_steady d x =
     (if length x < 1 then Inl OutOfRange else Inr [x ! 0 - m_temp d])"

text \<open>
  Modelled from the spec: the steady rows of \<open>ReactingSurf1D::eval\<close> (section 4.7). Row
  0 is the Dirichlet temperature row. Row \<open>k+1\<close> is, with the coverage equations
  enabled, the net production rate of surface species \<open>k\<close> at the trial coverages and
  the trial temperature; disabled, it is trial coverage \<open>k\<close> minus fixed coverage \<open>k\<close>.
\<close>

definition ReactingSurf1D_steady ::
  "eval_env \<Rightarrow> ReactingSurf1D \<Rightarrow> real list \<Rightarrow> error + real list" where
  "ReactingSurf1D_steady env d x =
     (let n = nat (ReactingSurf1D.m_nsp d) in
      if ReactingSurf1D.m_nsp d < 0 \<or> length x < 1 + n then Inl OutOfRange
      else if m_enabled d
      then (let sdot = net_production_rates env (take n (drop 1 x)) (x ! 0) in
            if length sdot < n then Inl OutOfRange
            else Inr ((x ! 0 - m_temp d) # take n sdot))
      else if length (m_fixed_cov d) < n then Inl OutOfRange
      else Inr ((x ! 0 - m_temp d) # map (\<lambda>k. x ! (k + 1) - m_fixed_cov d ! k) [0..<n]))"

fun steady_rows :: "eval_env \<Rightarrow> bdry \<Rightarrow> real list \<Rightarrow> error + real list" where
  "steady_rows env (Inlet d) x = Inlet1D_steady env d x"
| "steady_rows env (Symm d) x = zero_gradient_steady env x"
| "steady_rows env (Outlet d) x = zero_gradient_steady env x"
| "steady_rows env (OutletRes d) x = zero_gradient_steady env x"
| "steady_rows env (Surf d) x = Surf1D_steady d x"
| "steady_rows env (ReactingSurf d) x = ReactingSurf1D_steady env d x"

text \<open>
  Modelled from the spec: which rows belong to a differential unknown (section 4.8):
  the coverage rows of a reacting surface whose coverage equations are enabled, and no
  other row of any boundary.
\<close>

fun differential_row :: "bdry \<Rightarrow> nat \<Rightarrow> bool" where
  "differential_row (ReactingSurf d) k =
     (m_enabled d \<and> 1 \<le> k \<and> int k \<le> ReactingSurf1D.m_nsp d)"
| "differential_row _ k = False"

text \<open>
  A boundary is algebraic when none of its unknowns is differential: every boundary
  except a reacting surface with enabled coverage equations.
\<close>

fun algebraic :: "bdry \<Rightarrow> bool" where
  "algebraic (ReactingSurf d) = (\<not> m_enabled d)"
| "algebraic _ = True"

text \<open>
  Modelled from the spec: the steady residual of a boundary, its steady rows written into
  its slots of the residual buffer; the object is returned as it is (section 3:
  \<open>eval()\<close> is read-only with respect to the persistent domain state).
\<close>

definition steady_residual ::
  "eval_env \<Rightarrow> bdry \<Rightarrow> real list \<Rightarrow> real list \<Rightarrow> (error + real list) \<times> bdry" where
  "steady_residual env d x r =
     (case steady_rows env d x of
        Inl e \<Rightarrow> (Inl e, d)
      | Inr s \<Rightarrow>
          if length r < length s then (Inl OutOfRange, d)
          else (Inr (s @ drop (length s) r), d))"

text \<open>
  Modelled from the spec: \<open>eval\<close> with the reciprocal time step \<open>rdt\<close> (section 4.8).
  Every differential row \<open>k\<close> is the steady row minus
  \<open>rdt * (trial[k] - previous_accepted[k])\<close>; every other row is the steady row.
\<close>

definition eval ::
  "eval_env \<Rightarrow> bdry \<Rightarrow> real list \<Rightarrow> real list \<Rightarrow> real \<Rightarrow> (error + real list) \<times> bdry" where
  "eval env d x r rdt =
     (case steady_rows env d x of
        Inl e \<Rightarrow> (Inl e, d)
      | Inr s \<Rightarrow>
          if length r < length s then (Inl OutOfRange, d)
          else if list_ex (differential_row d) [0..<length s]
                  \<and> length (prevSoln env) < length s
          then (Inl OutOfRange, d)
          else (Inr (map (\<lambda>k. if differential_row d k
                                 then s ! k - rdt * (x ! k - prevSoln env ! k)
                                 else s ! k) [0..<length s]
                     @ drop (length s) r), d))"

subsection \<open>Offsets of a chain of domains\<close>

text \<open>
  Modelled from the spec: the layout of a domain and the offset assignment of the chain
  assembler, neither of which is in the headers. A domain has \<open>nv\<close> variables per grid
  point, \<open>np\<close> grid points and an offset into the global vector (section 3); the global
  vector holds the unknowns of all domains back to back, left to right, from index 0
  (section 2), so each domain starts where its left neighbour ends
  (\<open>own_offset + own_nv*own_np\<close>, section 4.1).
\<close>

record domain_layout =
  nv :: nat
  np :: nat
  offset :: nat

fun assign_from :: "nat \<Rightarrow> domain_layout list \<Rightarrow> domain_layout list" where
  "assign_from start [] = []"
| "assign_from start (d # ds) = d\<lparr>offset := start\<rparr> # assign_from (start + nv d * np d) ds"

definition assign_offsets :: "domain_layout list \<Rightarrow> domain_layout list" where
  "assign_offsets ds = assign_from 0 ds"

definition total_size :: "domain_layout list \<Rightarrow> nat" where
  "total_size ds = sum_list (map (\<lambda>d. nv d * np d) ds)"

definition slice :: "domain_layout \<Rightarrow> nat set" where
  "slice d = {offset d ..< offset d + nv d * np d}"

subsection \<open>Example objects\<close>

text \<open>
  A boundary that is not attached to anything, with a given temperature and mass flow
  rate; the inlet of the specification's scenario (\<open>mdot = 0.5\<close>, \<open>T = 300\<close>) attached to
  a flow of hydrogen and oxygen; a reacting surface with three surface species.
\<close>

definition detached :: "real \<Rightarrow> real \<Rightarrow> Bdry1D" where
  "detached T mdot =
     \<lparr>m_flow_left = None, m_flow_right = None, m_ilr = 0, m_left_nv = 0, m_right_nv = 0,
      m_left_loc = 0, m_right_loc = 0, m_left_points = 0, m_nv = 0, m_left_nsp = 0,
      m_right_nsp = 0, m_sp_left = 0, m_sp_right = 0, m_start_left = 0, m_start_right = 0,
      m_phase_left = None, m_phase_right = None, m_temp = T, m_mdot = mdot\<rparr>"

definition h2_o2 :: StFlow where
  "h2_o2 = \<lparr>phase = \<lparr>speciesNames = [''H2'', ''O2''], molecularWeights = [2, 32]\<rparr>\<rparr>"

definition scenario_inlet :: Inlet1D where
  "scenario_inlet =
     Bdry1D.extend (detached 300 (1/2))
       (Inlet1D.fields 1 0 2 [1, 0] [] (Some h2_o2))"

definition three_species_surface :: ReactingSurf1D where
  "three_species_surface =
     Bdry1D.extend (detached 900 0)
       (ReactingSurf1D.fields None (Some \<lparr>coverages = [2/10, 3/10, 5/10]\<rparr>) 0 3 True
          [0, 0, 0] [1, 0, 0] 0)"

definition still_env :: eval_env where
  "still_env =
     \<lparr>T_flow = 310, free_mass_flux = True, other_inlet_rows = (\<lambda>x. (0, 0)),
      net_production_rates = (\<lambda>cov T. map (\<lambda>c. 0) cov), prevSoln = [900, 1, 0, 0]\<rparr>"

text \<open>
  A chain with a two-variable inlet, a domain without grid points, a flow of three
  variables on four points and a one-variable outlet.
\<close>

definition scenario_chain :: "domain_layout list" where
  "scenario_chain =
     [\<lparr>nv = 2, np = 1, offset = 0\<rparr>, \<lparr>nv = 5, np = 0, offset = 0\<rparr>,
      \<lparr>nv = 3, np = 4, offset = 0\<rparr>, \<lparr>nv = 1, np = 1, offset = 0\<rparr>]"

section \<open>Theorems\<close>

subsection \<open>C8: state-not-ready errors of ReactorBase\<close>

text \<open>
  C8. Querying a derived state quantity before the state has been populated raises an
  error at the time of the query: \<open>temperature()\<close>, \<open>density()\<close>, \<open>massFractions()\<close>
  and \<open>massFraction(k)\<close> each throw a \<open>CanteraError\<close> naming the method when the
  state vector is empty. When it is not empty they return the stored component:
  \<open>state[0]\<close>, \<open>state[1]\<close>, the components from index 2 on, and \<open>state[k+2]\<close>,
  wherever the vector has that component.
\<close>

theorem ReactorBase_state_queries:
  "(m_state r = [] \<longrightarrow>
      temperature r = Inl (CanteraError ''ReactorBase::temperature'' state_empty_msg) \<and>
      density r = Inl (CanteraError ''ReactorBase::density'' state_empty_msg) \<and>
      massFractions r = Inl (CanteraError ''ReactorBase::massFractions'' state_empty_msg) \<and>
      massFraction r k = Inl (CanteraError ''ReactorBase::massFraction'' state_empty_msg)) \<and>
   (m_state r \<noteq> [] \<longrightarrow>
      temperature r = Inr (m_state r ! 0) \<and>
      (1 < length (m_state r) \<longrightarrow> density r = Inr (m_state r ! 1)) \<and>
      (2 \<le> length (m_state r) \<longrightarrow> massFractions r = Inr (drop 2 (m_state r))) \<and>
      (unat (k + 2) < length (m_state r) \<longrightarrow>
         massFraction r k = Inr (m_state r ! unat (k + 2))))"
  by (simp add: temperature_def density_def massFractions_def massFraction_def at_index_def)

theorem ReactorBase_state_queries_witness:
  "m_state (new_reactor []) = [] \<and>
   massFraction (new_reactor []) 1
     = Inl (CanteraError ''ReactorBase::massFraction'' state_empty_msg) \<and>
   m_state (new_reactor [300, 12/10, 4/10, 6/10]) \<noteq> [] \<and>
   temperature (new_reactor [300, 12/10, 4/10, 6/10]) = Inr 300 \<and>
   density (new_reactor [300, 12/10, 4/10, 6/10]) = Inr (12/10) \<and>
   massFractions (new_reactor [300, 12/10, 4/10, 6/10]) = Inr [4/10, 6/10] \<and>
   massFraction (new_reactor [300, 12/10, 4/10, 6/10]) 1 = Inr (6/10)"
  using ReactorBase_state_queries [of "new_reactor []" 1]
        ReactorBase_state_queries [of "new_reactor [300, 12/10, 4/10, 6/10]" 1]
  by (simp add: new_reactor_def)

subsection \<open>C5: composition methods on a boundary without composition state\<close>

text \<open>
  C5. \<open>setMoleFractions\<close> (by string or by array) and \<open>massFraction\<close>, called on a
  boundary that carries no composition state, throw at once and leave the object as it
  was. This holds for the \<open>Bdry1D\<close> methods themselves, on a base object or on any class
  that inherits them, and so for a virtual call on a symmetry plane, a simple outlet, a
  non-reacting surface and a reacting surface, none of which overrides them. The
  exception is the \<open>CanteraError\<close> that \<open>Bdry1D::err\<close> builds from the method's name.
\<close>

theorem base_composition_methods_throw:
  "Bdry1D_setMoleFractions_string xin b =
      (Inl (CanteraError ''Bdry1D::setMoleFractions''
              ''attempt to call base class method setMoleFractions''), b) \<and>
   Bdry1D_setMoleFractions_array xs b =
      (Inl (CanteraError ''Bdry1D::setMoleFractions''
              ''attempt to call base class method setMoleFractions''), b) \<and>
   Bdry1D_massFraction k b =
      (Inl (CanteraError ''Bdry1D::massFraction''
              ''attempt to call base class method massFraction''), b) \<and>
   (\<not> carries_composition d \<longrightarrow>
      setMoleFractions_string p xin d =
        (Inl (CanteraError ''Bdry1D::setMoleFractions''
                ''attempt to call base class method setMoleFractions''), d) \<and>
      setMoleFractions_array xs d =
        (Inl (CanteraError ''Bdry1D::setMoleFractions''
                ''attempt to call base class method setMoleFractions''), d) \<and>
      massFraction_of k d =
        (Inl (CanteraError ''Bdry1D::massFraction''
                ''attempt to call base class method massFraction''), d))"
  by (cases d)
     (simp_all add: Bdry1D_setMoleFractions_string_def Bdry1D_setMoleFractions_array_def
        Bdry1D_massFraction_def Bdry1D_err_def)

theorem base_composition_methods_throw_witness:
  "\<not> carries_composition (Symm (detached 300 0)) \<and>
   setMoleFractions_string (\<lambda>s. []) ''CH4:1'' (Symm (detached 300 0)) =
        (Inl (CanteraError ''Bdry1D::setMoleFractions''
                ''attempt to call base class method setMoleFractions''), Symm (detached 300 0)) \<and>
   massFraction_of 0 (Symm (detached 300 0)) =
        (Inl (CanteraError ''Bdry1D::massFraction''
                ''attempt to call base class method massFraction''), Symm (detached 300 0))"
  using base_composition_methods_throw
          [of "''CH4:1''" "detached 300 0" "[1]" 0 "Symm (detached 300 0)" "\<lambda>s. []"]
  by simp

subsection \<open>C9: attaching a kinetics manager enables the coverage equations\<close>

text \<open>
  C9. \<open>setKineticsMgr(kin)\<close> always leaves the coverage equations enabled and sets the
  surface species count to the species count of the kinetics manager's surface phase. A
  reacting surface whose coverage equations were switched off by
  \<open>enableCoverageEquations(false)\<close> has them switched on again by a later
  \<open>setKineticsMgr\<close>.
\<close>

theorem setKineticsMgr_enables:
  "m_enabled (ReactingSurf1D_setKineticsMgr kin d) \<and>
   ReactingSurf1D.m_nsp (ReactingSurf1D_setKineticsMgr kin d)
     = nSpecies (thermo kin (surfacePhaseIndex kin)) \<and>
   \<not> m_enabled (ReactingSurf1D_enableCoverageEquations False d) \<and>
   m_enabled (ReactingSurf1D_setKineticsMgr kin
                (ReactingSurf1D_enableCoverageEquations False d))"
  by (simp add: ReactingSurf1D_setKineticsMgr_def ReactingSurf1D_enableCoverageEquations_def
        Let_def)

subsection \<open>C10: finalizing an inlet changes nothing\<close>

text \<open>
  C10. \<open>Inlet1D::_finalize\<close> has an empty body: for every solution vector the inlet
  after the call is the inlet before it, so \<open>m_mdot\<close>, \<open>m_temp\<close>, \<open>m_yin\<close>, \<open>m_V0\<close> and
  every other member keep their values, also when \<open>_finalize\<close> is called virtually on
  a boundary that is an inlet.
\<close>

theorem Inlet1D_finalize_noop:
  "Inlet1D__finalize d x = Inr d \<and> virtual__finalize (Inlet d) x = Inr (Inlet d)"
  by (simp add: Inlet1D__finalize_def)

subsection \<open>C1: Dirichlet rows of an unconstrained inlet\<close>

lemma update_first_two:
  "Suc (Suc 0) \<le> length x \<Longrightarrow> x[0 := a, Suc 0 := b] = a # b # drop (Suc (Suc 0)) x"
  by (cases x; cases "tl x") auto

text \<open>
  C1. For an inlet with spreading rate zero on a flow with the free mass-flux
  formulation, \<open>eval\<close> writes trial mdot minus specified mdot into its slot 0 and trial
  \<open>T\<close> minus specified \<open>T\<close> into its slot 1, whatever \<open>rdt\<close> is. \<open>_getInitialSoln\<close>
  puts the specified mdot and \<open>T\<close> into the trial slots; at that trial vector both
  residual slots are exactly 0, and at a trial vector perturbed by \<open>a\<close> and \<open>b\<close> the two
  slots are exactly \<open>a\<close> and \<open>b\<close>: linear in the perturbation, and not zero unless the
  perturbation is.
\<close>

theorem inlet_dirichlet_residual:
  assumes "free_mass_flux env" and "m_V0 d = 0" and "2 \<le> length x" and "2 \<le> length r"
  shows "eval env (Inlet d) x r rdt
           = (Inr ((x ! 0 - m_mdot d) # (x ! 1 - m_temp d) # drop 2 r), Inlet d) \<and>
         Inlet1D__getInitialSoln d x = Inr (m_mdot d # m_temp d # drop 2 x) \<and>
         eval env (Inlet d) (m_mdot d # m_temp d # drop 2 x) r rdt
           = (Inr (0 # 0 # drop 2 r), Inlet d) \<and>
         eval env (Inlet d) ((m_mdot d + a) # (m_temp d + b) # drop 2 x) r rdt
           = (Inr (a # b # drop 2 r), Inlet d)"
  using assms
  by (simp add: eval_def Inlet1D_steady_def Inlet1D__getInitialSoln_def update_first_two
        upt_rec numeral_2_eq_2)

theorem inlet_dirichlet_residual_witness:
  "free_mass_flux still_env \<and> m_V0 scenario_inlet = 0 \<and>
   eval still_env (Inlet scenario_inlet) [1/2, 300] [7, 7] 0
     = (Inr [0, 0], Inlet scenario_inlet) \<and>
   eval still_env (Inlet scenario_inlet) [1/2 + 1/10, 300 + 5] [7, 7] 0
     = (Inr [1/10, 5], Inlet scenario_inlet)"
  using inlet_dirichlet_residual [of still_env scenario_inlet "[1/2, 300]" "[7, 7]" 0 "1/10" 5]
  by (simp add: still_env_def scenario_inlet_def Bdry1D.extend_def Inlet1D.fields_def
        detached_def)

subsection \<open>Rows with and without the pseudo-time term\<close>

lemma algebraic_rows: "algebraic d \<Longrightarrow> \<not> differential_row d k"
  by (cases d) simp_all

lemma rows_kept:
  "\<forall>k<length s. \<not> P k \<Longrightarrow> map (\<lambda>k. if P k then f k else s ! k) [0..<length s] = s"
  by (rule nth_equalityI) simp_all

lemma eval_algebraic:
  assumes "\<And>k. \<not> differential_row d k"
  shows "eval env d x r rdt = steady_residual env d x r"
proof (cases "steady_rows env d x")
  case (Inl e)
  then show ?thesis by (simp add: eval_def steady_residual_def)
next
  case (Inr s)
  have "map (\<lambda>k. if differential_row d k then s ! k - rdt * (x ! k - prevSoln env ! k)
                  else s ! k) [0..<length s] = s"
    using assms by (intro rows_kept) simp
  moreover have "\<not> list_ex (differential_row d) [0..<length s]"
    using assms by (simp add: list_ex_iff)
  ultimately show ?thesis
    using Inr by (simp add: eval_def steady_residual_def)
qed

lemma steady_rows_length:
  "steady_rows env d x = Inr rows \<Longrightarrow> length rows \<le> length x"
  by (cases d)
     (auto simp: Inlet1D_steady_def zero_gradient_steady_def Surf1D_steady_def
        ReactingSurf1D_steady_def Let_def Suc_le_eq split: if_splits)

lemma differential_row_bound:
  "steady_rows env d x = Inr rows \<Longrightarrow> differential_row d k \<Longrightarrow> k < length rows"
  by (cases d) (auto simp: ReactingSurf1D_steady_def Let_def split: if_splits)

lemma eval_blend:
  assumes st: "steady_residual env d x r = (Inr s, d')"
      and prev: "length x \<le> length (prevSoln env)"
  shows "eval env d x r rdt
           = (Inr (map (\<lambda>k. if differential_row d k
                              then s ! k - rdt * (x ! k - prevSoln env ! k)
                              else s ! k) [0..<length s]), d)"
proof (cases "steady_rows env d x")
  case (Inl e)
  with st show ?thesis by (simp add: steady_residual_def)
next
  case (Inr rows)
  with st have len: "length rows \<le> length r" and s: "s = rows @ drop (length rows) r"
    by (auto simp: steady_residual_def split: if_splits)
  have lx: "length rows \<le> length (prevSoln env)"
    using steady_rows_length [OF Inr] prev by simp
  let ?g = "\<lambda>k. if differential_row d k then rows ! k - rdt * (x ! k - prevSoln env ! k)
                 else rows ! k"
  let ?h = "\<lambda>k. if differential_row d k then s ! k - rdt * (x ! k - prevSoln env ! k)
                 else s ! k"
  have "map ?g [0..<length rows] @ drop (length rows) r = map ?h [0..<length s]"
  proof (rule nth_equalityI)
    show "length (map ?g [0..<length rows] @ drop (length rows) r)
            = length (map ?h [0..<length s])"
      using len by (simp add: s)
  next
    fix i
    assume "i < length (map ?g [0..<length rows] @ drop (length rows) r)"
    then have i: "i < length s" using len by (simp add: s)
    show "(map ?g [0..<length rows] @ drop (length rows) r) ! i = map ?h [0..<length s] ! i"
    proof (cases "i < length rows")
      case True
      then show ?thesis using i by (simp add: nth_append s)
    next
      case False
      then have "\<not> differential_row d i"
        using differential_row_bound [OF Inr] by blast
      then show ?thesis using False i by (simp add: nth_append s)
    qed
  qed
  then show ?thesis
    using Inr len lx by (simp add: eval_def)
qed

subsection \<open>C2: held coverages of a reacting surface\<close>

text \<open>
  C2. Let a reacting surface be finalized at a solution \<open>xa\<close>, and let its coverage
  equations be disabled afterwards, the fixed coverages and the species count staying
  as \<open>_finalize\<close> left them. Then \<open>eval\<close> writes into every coverage slot \<open>k+1\<close> the
  trial coverage minus the coverage of \<open>xa\<close>, exactly, for every \<open>rdt\<close>; the coverage
  rows are the same for every trial temperature \<open>T'\<close> put into slot 0.
\<close>

theorem disabled_coverage_hold:
  assumes fin: "ReactingSurf1D__finalize d xa = Inr d1"
      and same: "m_fixed_cov d2 = m_fixed_cov d1"
                "ReactingSurf1D.m_nsp d2 = ReactingSurf1D.m_nsp d1"
      and off: "\<not> m_enabled d2"
      and len: "1 + nat (ReactingSurf1D.m_nsp d) \<le> length x"
               "1 + nat (ReactingSurf1D.m_nsp d) \<le> length r"
  shows "eval env (ReactingSurf d2) x r rdt
           = (Inr ((x ! 0 - m_temp d2)
                   # map (\<lambda>k. x ! (k + 1) - xa ! (k + 1)) [0..<nat (ReactingSurf1D.m_nsp d)]
                   @ drop (1 + nat (ReactingSurf1D.m_nsp d)) r),
              ReactingSurf d2) \<and>
         eval env (ReactingSurf d2) (x[0 := T']) r rdt
           = (Inr ((T' - m_temp d2)
                   # map (\<lambda>k. x ! (k + 1) - xa ! (k + 1)) [0..<nat (ReactingSurf1D.m_nsp d)]
                   @ drop (1 + nat (ReactingSurf1D.m_nsp d)) r),
              ReactingSurf d2)"
proof -
  let ?n = "nat (ReactingSurf1D.m_nsp d)"
  from fin have n: "ReactingSurf1D.m_nsp d1 = ReactingSurf1D.m_nsp d"
    and nonneg: "0 \<le> ReactingSurf1D.m_nsp d"
    and fc: "?n \<le> length (m_fixed_cov d1)"
    by (auto simp: ReactingSurf1D__finalize_def Let_def split: if_splits)
  have hold: "eval env (ReactingSurf d2) y r rdt
                = (Inr ((y ! 0 - m_temp d2)
                        # map (\<lambda>k. y ! (k + 1) - xa ! (k + 1)) [0..<?n] @ drop (1 + ?n) r),
                   ReactingSurf d2)"
    if y: "1 + ?n \<le> length y" for y
  proof -
    have cov: "map (\<lambda>k. y ! (k + 1) - m_fixed_cov d1 ! k) [0..<?n]
                 = map (\<lambda>k. y ! (k + 1) - xa ! (k + 1)) [0..<?n]"
      using fin by (auto simp: ReactingSurf1D__finalize_def Let_def nth_append split: if_splits)
    have st: "ReactingSurf1D_steady env d2 y
                = Inr ((y ! 0 - m_temp d2) # map (\<lambda>k. y ! (k + 1) - xa ! (k + 1)) [0..<?n])"
      using same off y n nonneg fc cov by (simp add: ReactingSurf1D_steady_def Let_def)
    have "eval env (ReactingSurf d2) y r rdt = steady_residual env (ReactingSurf d2) y r"
      using off by (intro eval_algebraic) simp
    then show ?thesis
      using len by (simp add: steady_residual_def st)
  qed
  have "x \<noteq> []" using len by auto
  then have "eval env (ReactingSurf d2) (x[0 := T']) r rdt
           = (Inr ((T' - m_temp d2)
                   # map (\<lambda>k. x ! (k + 1) - xa ! (k + 1)) [0..<?n] @ drop (1 + ?n) r),
              ReactingSurf d2)"
    using hold [of "x[0 := T']"] len by simp
  with hold [of x] len show ?thesis by simp
qed

theorem disabled_coverage_hold_witness:
  "ReactingSurf1D__finalize three_species_surface [900, 2/10, 3/10, 5/10]
     = Inr (three_species_surface\<lparr>m_fixed_cov := [2/10, 3/10, 5/10]\<rparr>) \<and>
   eval still_env
     (ReactingSurf (ReactingSurf1D_enableCoverageEquations False
        (three_species_surface\<lparr>m_fixed_cov := [2/10, 3/10, 5/10]\<rparr>)))
     [1000, 1/10, 3/10, 6/10] [7, 7, 7, 7] 4
   = (Inr [100, - 1/10, 0, 1/10],
      ReactingSurf (ReactingSurf1D_enableCoverageEquations False
        (three_species_surface\<lparr>m_fixed_cov := [2/10, 3/10, 5/10]\<rparr>)))"
  using disabled_coverage_hold
    [of three_species_surface "[900, 2/10, 3/10, 5/10]"
        "three_species_surface\<lparr>m_fixed_cov := [2/10, 3/10, 5/10]\<rparr>"
        "ReactingSurf1D_enableCoverageEquations False
           (three_species_surface\<lparr>m_fixed_cov := [2/10, 3/10, 5/10]\<rparr>)"
        "[1000, 1/10, 3/10, 6/10]" "[7, 7, 7, 7]" still_env 4 1000]
  by (simp add: ReactingSurf1D__finalize_def ReactingSurf1D_enableCoverageEquations_def
        three_species_surface_def Bdry1D.extend_def ReactingSurf1D.fields_def detached_def
        upt_rec)

subsection \<open>C3: the pseudo-time term\<close>

text \<open>
  C3. For every boundary: if it is algebraic (an inlet, a symmetry plane, an outlet, an
  outlet with reservoir, a non-reacting surface, or a reacting surface with disabled
  coverage equations), \<open>eval\<close> gives the steady residual for every \<open>rdt\<close>. With
  \<open>rdt = 0\<close>, \<open>eval\<close> gives the steady residual for every boundary. For any \<open>rdt\<close>, a
  row of the result differs from the steady row only if it is a differential row (a
  coverage row of a reacting surface with enabled coverage equations), and there it is
  the steady row minus \<open>rdt * (trial[k] - previous_accepted[k])\<close>; the temperature row of
  a reacting surface is never differential. The previously accepted solution is assumed
  to cover the trial slice.
\<close>

theorem pseudo_time_term:
  "(algebraic d \<longrightarrow> eval env d x r rdt = steady_residual env d x r) \<and>
   (length x \<le> length (prevSoln env) \<longrightarrow>
      eval env d x r 0 = steady_residual env d x r) \<and>
   (length x \<le> length (prevSoln env) \<and> steady_residual env d x r = (Inr s, d) \<longrightarrow>
      eval env d x r rdt
        = (Inr (map (\<lambda>k. if differential_row d k
                           then s ! k - rdt * (x ! k - prevSoln env ! k)
                           else s ! k) [0..<length s]), d)) \<and>
   \<not> differential_row d 0"
proof (intro conjI impI)
  assume "algebraic d"
  then show "eval env d x r rdt = steady_residual env d x r"
    by (intro eval_algebraic) (rule algebraic_rows)
next
  assume prev: "length x \<le> length (prevSoln env)"
  show "eval env d x r 0 = steady_residual env d x r"
  proof (cases "fst (steady_residual env d x r)")
    case (Inl e)
    then show ?thesis
      by (auto simp: eval_def steady_residual_def split: sum.splits if_splits)
  next
    case (Inr s')
    then have st: "steady_residual env d x r = (Inr s', d)"
      by (auto simp: steady_residual_def split: sum.splits if_splits)
    have "map (\<lambda>k. if differential_row d k then s' ! k - 0 * (x ! k - prevSoln env ! k)
                    else s' ! k) [0..<length s'] = s'"
      by (rule nth_equalityI) simp_all
    then show ?thesis
      using eval_blend [OF st prev, of 0] st by simp
  qed
next
  assume "length x \<le> length (prevSoln env) \<and> steady_residual env d x r = (Inr s, d)"
  then show "eval env d x r rdt
        = (Inr (map (\<lambda>k. if differential_row d k
                           then s ! k - rdt * (x ! k - prevSoln env ! k)
                           else s ! k) [0..<length s]), d)"
    using eval_blend by blast
next
  show "\<not> differential_row d 0"
    by (cases d) simp_all
qed

theorem pseudo_time_term_witness:
  "algebraic (Symm (detached 300 0)) \<and>
   eval still_env (Symm (detached 300 0)) [305] [7] 4
     = steady_residual still_env (Symm (detached 300 0)) [305] [7] \<and>
   length [1000, 1/10, 3/10, 6/10 :: real] \<le> length (prevSoln still_env) \<and>
   steady_residual still_env (ReactingSurf three_species_surface)
       [1000, 1/10, 3/10, 6/10] [7, 7, 7, 7]
     = (Inr [100, 0, 0, 0], ReactingSurf three_species_surface) \<and>
   eval still_env (ReactingSurf three_species_surface)
       [1000, 1/10, 3/10, 6/10] [7, 7, 7, 7] 0
     = (Inr [100, 0, 0, 0], ReactingSurf three_species_surface) \<and>
   eval still_env (ReactingSurf three_species_surface)
       [1000, 1/10, 3/10, 6/10] [7, 7, 7, 7] 4
     = (Inr [100, 36/10, - 12/10, - 24/10], ReactingSurf three_species_surface)"
proof -
  have alg: "algebraic (Symm (detached 300 0))" by simp
  have len: "length [1000, 1/10, 3/10, 6/10 :: real] \<le> length (prevSoln still_env)"
    by (simp add: still_env_def)
  have st: "steady_residual still_env (ReactingSurf three_species_surface)
              [1000, 1/10, 3/10, 6/10] [7, 7, 7, 7]
            = (Inr [100, 0, 0, 0], ReactingSurf three_species_surface)"
    by (simp add: steady_residual_def ReactingSurf1D_steady_def still_env_def
          three_species_surface_def Bdry1D.extend_def ReactingSurf1D.fields_def detached_def)
  have en: "m_enabled three_species_surface" "ReactingSurf1D.m_nsp three_species_surface = 3"
    by (simp_all add: three_species_surface_def Bdry1D.extend_def ReactingSurf1D.fields_def)
  have prev: "prevSoln still_env = [900, 1, 0, 0]"
    by (simp add: still_env_def)
  note inst = pseudo_time_term
      [of "ReactingSurf three_species_surface" still_env "[1000, 1/10, 3/10, 6/10]"
          "[7, 7, 7, 7]" _ "[100, 0, 0, 0]"]
  have e0: "eval still_env (ReactingSurf three_species_surface)
              [1000, 1/10, 3/10, 6/10] [7, 7, 7, 7] 0
            = (Inr [100, 0, 0, 0], ReactingSurf three_species_surface)"
    using inst [of 0] len st by simp
  have e4: "eval still_env (ReactingSurf three_species_surface)
              [1000, 1/10, 3/10, 6/10] [7, 7, 7, 7] 4
            = (Inr [100, 36/10, - 12/10, - 24/10], ReactingSurf three_species_surface)"
    using inst [of 4] len st by (simp add: en prev upt_rec)
  show ?thesis
    using pseudo_time_term [of "Symm (detached 300 0)" still_env "[305]" "[7]" 4 "[]"]
          alg len st e0 e4
    by simp
qed

subsection \<open>C6: the domains tile the global vector\<close>

lemma assign_from_shape:
  "length (assign_from s ds) = length ds \<and>
   map nv (assign_from s ds) = map nv ds \<and> map np (assign_from s ds) = map np ds"
  by (induction ds arbitrary: s) simp_all

lemma total_size_Cons: "total_size (d # ds) = nv d * np d + total_size ds"
  by (simp add: total_size_def)

lemma assign_from_within:
  "d \<in> set (assign_from s ds) \<Longrightarrow>
     s \<le> offset d \<and> offset d + nv d * np d \<le> s + total_size ds"
proof (induction ds arbitrary: s)
  case Nil
  then show ?case by simp
next
  case (Cons a ds)
  then show ?case
    by (fastforce simp: total_size_Cons)
qed

lemma assign_from_union:
  "(\<Union>d\<in>set (assign_from s ds). slice d) = {s ..< s + total_size ds}"
proof (induction ds arbitrary: s)
  case Nil
  then show ?case by (simp add: total_size_def)
next
  case (Cons a ds)
  have "slice (a\<lparr>offset := s\<rparr>) = {s ..< s + nv a * np a}"
    by (simp add: slice_def)
  moreover have "{s ..< s + nv a * np a} \<union> {s + nv a * np a ..< s + nv a * np a + total_size ds}
                  = {s ..< s + (nv a * np a + total_size ds)}"
    by auto
  ultimately show ?case
    using Cons.IH [of "s + nv a * np a"] by (simp add: total_size_Cons)
qed

lemma assign_from_disjoint:
  "i < j \<Longrightarrow> j < length ds \<Longrightarrow>
     slice (assign_from s ds ! i) \<inter> slice (assign_from s ds ! j) = {}"
proof (induction ds arbitrary: s i j)
  case Nil
  then show ?case by simp
next
  case (Cons a ds)
  obtain j' where j: "j = Suc j'" using Cons.prems(1) by (cases j) auto
  show ?case
  proof (cases i)
    case 0
    have "assign_from (s + nv a * np a) ds ! j' \<in> set (assign_from (s + nv a * np a) ds)"
      using Cons.prems(2) j by (simp add: assign_from_shape)
    from assign_from_within [OF this]
    show ?thesis using 0 j by (auto simp: slice_def)
  next
    case (Suc i')
    then show ?thesis using Cons j by simp
  qed
qed

lemma assign_from_sorted: "sorted (map offset (assign_from s ds))"
proof (induction ds arbitrary: s)
  case Nil
  then show ?case by simp
next
  case (Cons a ds)
  have "\<forall>d\<in>set (assign_from (s + nv a * np a) ds). s \<le> offset d"
    using assign_from_within by fastforce
  then show ?case using Cons.IH by simp
qed

lemma assign_from_strict:
  "list_all (\<lambda>d. 0 < nv d * np d) ds \<Longrightarrow> sorted_wrt (<) (map offset (assign_from s ds))"
proof (induction ds arbitrary: s)
  case Nil
  then show ?case by simp
next
  case (Cons a ds)
  have "0 < nv a * np a" using Cons.prems by simp
  then have "s < offset d"
    if "d \<in> set (assign_from (s + nv a * np a) ds)" for d
    using assign_from_within [OF that] by linarith
  then have "\<forall>d\<in>set (assign_from (s + nv a * np a) ds). s < offset d"
    by blast
  then show ?case using Cons by simp
qed

text \<open>
  C6. After the chain assembler has assigned the offsets of a chain (which changes
  nothing else of a domain), the ranges \<open>[offset, offset + nv*np)\<close> of two different
  domains are disjoint, the union of all ranges is exactly \<open>[0, total size)\<close>, and the
  offsets never decrease from left to right; they increase strictly where every domain
  has at least one unknown. This holds for every chain, whatever the order and the mix
  of domains with no, one or many grid points.
\<close>

theorem offsets_tile_global_vector:
  "length (assign_offsets ds) = length ds \<and>
   map nv (assign_offsets ds) = map nv ds \<and>
   map np (assign_offsets ds) = map np ds \<and>
   (\<forall>i<length ds. \<forall>j<length ds. i \<noteq> j \<longrightarrow>
      slice (assign_offsets ds ! i) \<inter> slice (assign_offsets ds ! j) = {}) \<and>
   (\<Union>d\<in>set (assign_offsets ds). slice d) = {0 ..< total_size ds} \<and>
   sorted (map offset (assign_offsets ds)) \<and>
   (list_all (\<lambda>d. 0 < nv d * np d) ds \<longrightarrow>
      sorted_wrt (<) (map offset (assign_offsets ds)))"
proof -
  have "slice (assign_offsets ds ! i) \<inter> slice (assign_offsets ds ! j) = {}"
    if "i < length ds" "j < length ds" "i \<noteq> j" for i j
  proof (cases "i < j")
    case True
    then show ?thesis using that by (simp add: assign_offsets_def assign_from_disjoint)
  next
    case False
    then have "j < i" using that by simp
    then have "slice (assign_offsets ds ! j) \<inter> slice (assign_offsets ds ! i) = {}"
      using that by (simp add: assign_offsets_def assign_from_disjoint)
    then show ?thesis by blast
  qed
  moreover have "(\<Union>d\<in>set (assign_offsets ds). slice d) = {0 ..< total_size ds}"
    using assign_from_union [of 0 ds] by (simp add: assign_offsets_def)
  ultimately show ?thesis
    by (simp add: assign_offsets_def assign_from_shape assign_from_sorted assign_from_strict)
qed

theorem offsets_tile_global_vector_witness:
  "map offset (assign_offsets scenario_chain) = [0, 2, 2, 14] \<and>
   total_size scenario_chain = 15 \<and>
   (0::nat) < length scenario_chain \<and> (3::nat) < length scenario_chain \<and> (0::nat) \<noteq> 3 \<and>
   slice (assign_offsets scenario_chain ! 0) \<inter> slice (assign_offsets scenario_chain ! 3) = {} \<and>
   (\<Union>d\<in>set (assign_offsets scenario_chain). slice d) = {0 ..< 15} \<and>
   list_all (\<lambda>d. 0 < nv d * np d) (take 1 scenario_chain) \<and>
   sorted_wrt (<) (map offset (assign_offsets (take 1 scenario_chain)))"
proof -
  have offs: "map offset (assign_offsets scenario_chain) = [0, 2, 2, 14]"
    by (simp add: assign_offsets_def scenario_chain_def)
  have tot: "total_size scenario_chain = 15"
    by (simp add: total_size_def scenario_chain_def)
  have len: "length scenario_chain = 4"
    by (simp add: scenario_chain_def)
  have pos: "list_all (\<lambda>d. 0 < nv d * np d) (take 1 scenario_chain)"
    by (simp add: scenario_chain_def)
  show ?thesis
    using offsets_tile_global_vector [of scenario_chain]
          offsets_tile_global_vector [of "take 1 scenario_chain"] offs tot len pos
    by simp
qed

subsection \<open>C7: reading back the inlet composition\<close>










end
